theory Spec2Isabelle
  imports Complex_Main
begin

section \<open>Numbers\<close>

text \<open>
  The trace page computes with the TypeScript type \<open>number\<close>, the binary64
  floating-point numbers. Two readings of its arithmetic are used here, both on the
  type \<open>real\<close>. In the exact reading every sum, difference and quotient is the exact
  one and the decimal constants of the source are the exact fractions; the rule that
  \<open>_adjustViewRange\<close> follows, and what it does with zero changes, are stated in it.
  In the binary64 reading (\<open>adjustViewRange64\<close>, further down) a number is a finite
  double, every decimal constant is the double nearest to it and every operation is
  rounded; what the keyboard gestures store is stated in that reading.
\<close>

text \<open>
  \<open>_clamp\<close> is \<open>lodash/clamp\<close>, called with both bounds: the number is first cut at
  the upper bound, then raised to the lower one.
\<close>

definition clamp :: "real \<Rightarrow> real \<Rightarrow> real \<Rightarrow> real" where
  "clamp number lower upper =
     (let number1 = (if number \<le> upper then number else upper)
      in if number1 \<ge> lower then number1 else lower)"

section \<open>The trace page: constants and effects\<close>

definition VIEW_MIN_RANGE :: real where
  "VIEW_MIN_RANGE = 0.01"

text \<open>
  What a method of the page does besides changing the component state: the calls it
  makes to collaborators, in order. \<open>'x\<close> is the type of thrown values.
\<close>

datatype 'x effect =
    PreventDefault
  | TrackRange string "real \<times> real" "real \<times> real"
  | ConsoleError string 'x

text \<open>
  \<open>getHandler\<close>, the inner function of \<open>makeShortcutCallbacks\<close>: the handler of one
  entry of \<open>shortcutConfig\<close> calls \<open>event.preventDefault()\<close> and then \<open>adjRange\<close> with
  the entry's two changes.
\<close>

definition getHandler ::
  "(real \<Rightarrow> real \<Rightarrow> 's \<Rightarrow> 'x effect list \<times> 's) \<Rightarrow> real \<times> real \<Rightarrow> 's \<Rightarrow> 'x effect list \<times> 's" where
  "getHandler adjRange change st =
     (case change of (startChange, endChange) \<Rightarrow>
        (case adjRange startChange endChange st of
           (effs, st') \<Rightarrow> (PreventDefault # effs, st')))"

section \<open>The trace page: props and state\<close>

text \<open>
  The time part of the view range. \<open>current\<close> is the committed range, a pair of
  numbers. The declarations of \<open>IViewRange\<close> and \<open>ViewRangeTimeUpdate\<close> are imported
  from \<open>./types\<close>; every field of the time object other than \<open>current\<close> is kept by
  name in \<open>others\<close>, with values of an arbitrary type \<open>'v\<close>.
\<close>

record 'v IViewRangeTime =
  current :: "real \<times> real"
  others :: "string \<rightharpoonup> 'v"

record 'v IViewRange =
  time :: "'v IViewRangeTime"

text \<open>
  A partial update of the time object: any subset of its fields. A field the update
  does not carry is \<open>None\<close>.
\<close>

record 'v ViewRangeTimeUpdate =
  update_current :: "(real \<times> real) option"
  update_others :: "string \<rightharpoonup> 'v"

datatype ETraceViewType =
  TraceTimelineViewer | TraceGraph | TraceStatistics | TraceSpansView | TraceFlamegraph

record ('tr, 'v) TState =
  headerHeight :: "real option"
  slimView :: bool
  viewType :: ETraceViewType
  viewRange :: "'v IViewRange"
  currentRepresentation :: string
  transformedTrace :: "'tr option"
  subtrace :: "'tr option"

text \<open>
  The page state and a key handler at the types used in the examples on keyboard
  gestures: no trace type, no further time fields and no thrown values are needed there.
\<close>

type_synonym pageState = "(unit, unit) TState"

type_synonym keyHandler = "pageState \<Rightarrow> unit effect list \<times> pageState"

text \<open>
  \<open>fetchedState\<close> comes from \<open>../../constants\<close>; the page names \<open>LOADING\<close> and
  \<open>ERROR\<close>, and \<open>DONE\<close> stands for any other value.
\<close>

datatype fetchedState = LOADING | ERROR | DONE

record 'tr FetchedTrace =
  data :: "'tr option"
  state :: fetchedState
  error :: "string option"

record TParams =
  spanId :: "string option"

text \<open>The props that the methods modelled here read.\<close>

record 'tr TProps =
  trace :: "'tr FetchedTrace option"
  params :: TParams

record TraceRepresentation =
  name :: string
  description :: "string option"
  transformFunction :: string

text \<open>The default representation and the state set by the constructor.\<close>

definition defaultRepresentation :: "TraceRepresentation list option \<Rightarrow> string" where
  "defaultRepresentation traceRepresentations =
     (case traceRepresentations of
        Some (r # rs) \<Rightarrow> name r
      | _ \<Rightarrow> ''Original'')"

definition constructor_state :: "bool \<Rightarrow> TraceRepresentation list option \<Rightarrow> ('tr, 'v) TState" where
  "constructor_state collapseTitle traceRepresentations =
     \<lparr>headerHeight = None,
      slimView = collapseTitle,
      viewType = TraceTimelineViewer,
      viewRange = \<lparr>time = \<lparr>current = (0, 1), others = Map.empty\<rparr>\<rparr>,
      currentRepresentation = defaultRepresentation traceRepresentations,
      transformedTrace = None,
      subtrace = None\<rparr>"

section \<open>The trace page: view range methods\<close>

text \<open>
  \<open>updateViewRangeTime(start, end, trackSrc?)\<close>: reports the change when \<open>trackSrc\<close> is
  truthy (given and not the empty string), then replaces the time object by
  \<open>{ current: [start, end] }\<close>.
\<close>

definition updateViewRangeTime ::
  "real \<Rightarrow> real \<Rightarrow> string option \<Rightarrow> ('tr, 'v) TState \<Rightarrow> 'x effect list \<times> ('tr, 'v) TState" where
  "updateViewRangeTime start end trackSrc st =
     (let tracked =
            (case trackSrc of
               Some src \<Rightarrow>
                 if src \<noteq> [] then [TrackRange src (start, end) (current (time (viewRange st)))]
                 else []
             | None \<Rightarrow> []);
          current' = (start, end);
          time' = \<lparr>current = current', others = Map.empty\<rparr>
      in (tracked, st\<lparr>viewRange := (viewRange st)\<lparr>time := time'\<rparr>\<rparr>))"

text \<open>\<open>updateNextViewRangeTime(update)\<close>: the fields of \<open>update\<close> are spread over the time object.\<close>

definition updateNextViewRangeTime ::
  "'v ViewRangeTimeUpdate \<Rightarrow> ('tr, 'v) TState \<Rightarrow> ('tr, 'v) TState" where
  "updateNextViewRangeTime update st =
     (let old = time (viewRange st);
          time' = \<lparr>current = (case update_current update of Some c \<Rightarrow> c | None \<Rightarrow> current old),
                   others = others old ++ update_others update\<rparr>
      in st\<lparr>viewRange := (viewRange st)\<lparr>time := time'\<rparr>\<rparr>)"

text \<open>\<open>_adjustViewRange(startChange, endChange, trackSrc)\<close>, in the exact reading.\<close>

definition adjustViewRange ::
  "real \<Rightarrow> real \<Rightarrow> string \<Rightarrow> ('tr, 'v) TState \<Rightarrow> 'x effect list \<times> ('tr, 'v) TState" where
  "adjustViewRange startChange endChange trackSrc st =
     (case current (time (viewRange st)) of (viewStart, viewEnd) \<Rightarrow>
        (let start = clamp (viewStart + startChange) 0 0.99;
             end = clamp (viewEnd + endChange) 0.01 1
         in if end - start < VIEW_MIN_RANGE then
              if startChange < 0 \<and> endChange < 0 then
                updateViewRangeTime start (start + VIEW_MIN_RANGE) (Some trackSrc) st
              else if startChange > 0 \<and> endChange > 0 then
                updateViewRangeTime start (start + VIEW_MIN_RANGE) (Some trackSrc) st
              else
                (let center = viewStart + (viewEnd - viewStart) / 2
                 in updateViewRangeTime (center - VIEW_MIN_RANGE / 2) (center + VIEW_MIN_RANGE / 2)
                      (Some trackSrc) st)
            else updateViewRangeTime start end (Some trackSrc) st))"

text \<open>The state after pressing the key of one shortcut \<open>n\<close> times.\<close>

fun press ::
  "(('tr, 'v) TState \<Rightarrow> 'x effect list \<times> ('tr, 'v) TState) \<Rightarrow> nat \<Rightarrow> ('tr, 'v) TState \<Rightarrow> ('tr, 'v) TState" where
  "press handler 0 st = st"
| "press handler (Suc n) st = press handler n (snd (handler st))"

text \<open>The range a state holds.\<close>

definition currentRange :: "('tr, 'v) TState \<Rightarrow> real \<times> real" where
  "currentRange st = current (time (viewRange st))"

text \<open>The range invariant of the specification, as a predicate on a pair.\<close>

definition validRange :: "real \<times> real \<Rightarrow> bool" where
  "validRange r = (0 \<le> fst r \<and> fst r < snd r \<and> snd r \<le> 1 \<and> snd r - fst r \<ge> VIEW_MIN_RANGE)"

text \<open>
  The rule for \<open>adjust\<close> in the words of the specification: both ends are clamped, and
  a result narrower than the minimum is pinned to the clamped start when both deltas
  are negative, pinned to the clamped start when both are positive, and otherwise
  replaced by the minimum-width window around the midpoint of the old range.
\<close>

definition spec_clamp :: "real \<Rightarrow> real \<Rightarrow> real \<Rightarrow> real" where
  "spec_clamp x lo hi = max lo (min x hi)"

definition spec_adjust :: "real \<times> real \<Rightarrow> real \<Rightarrow> real \<Rightarrow> real \<times> real" where
  "spec_adjust r startDelta endDelta =
     (let newStart = spec_clamp (fst r + startDelta) 0 0.99;
          newEnd = spec_clamp (snd r + endDelta) 0.01 1;
          midpoint = (fst r + snd r) / 2
      in if newEnd - newStart < VIEW_MIN_RANGE then
           if startDelta < 0 \<and> endDelta < 0 then (newStart, newStart + VIEW_MIN_RANGE)
           else if startDelta > 0 \<and> endDelta > 0 then (newStart, newStart + VIEW_MIN_RANGE)
           else (midpoint - VIEW_MIN_RANGE / 2, midpoint + VIEW_MIN_RANGE / 2)
         else (newStart, newEnd))"

text \<open>
  The pair that \<open>_adjustViewRange\<close> passes to \<open>updateViewRangeTime\<close>, as a function of
  the old range and the two changes. It is derived from \<open>adjustViewRange\<close> in
  \<open>adjustViewRange_range\<close> below and is used to reason about repeated calls.
\<close>

definition adjustedRange :: "real \<times> real \<Rightarrow> real \<Rightarrow> real \<Rightarrow> real \<times> real" where
  "adjustedRange r startChange endChange =
     (let start = clamp (fst r + startChange) 0 0.99;
          end = clamp (snd r + endChange) 0.01 1
      in if end - start < VIEW_MIN_RANGE then
           if (startChange < 0 \<and> endChange < 0) \<or> (startChange > 0 \<and> endChange > 0)
           then (start, start + VIEW_MIN_RANGE)
           else (fst r + (snd r - fst r) / 2 - VIEW_MIN_RANGE / 2,
                 fst r + (snd r - fst r) / 2 + VIEW_MIN_RANGE / 2)
         else (start, end))"

section \<open>The trace page: view range methods in binary64\<close>

text \<open>
  A finite double is a real number \<open>m * 2 ^ e\<close> with \<open>\<bar>m\<bar> < 2 ^ 53\<close> and
  \<open>-1074 \<le> e \<le> 971\<close>. \<open>fl\<close> rounds a real number to the nearest double, ties to the
  even significand, as every binary64 operation and every decimal literal does:
  \<open>scaleUp\<close> finds the binary place of the last kept digit (at most \<open>1074\<close>, where the
  subnormal numbers end) and \<open>scaleDown\<close> does the same for numbers from \<open>2 ^ 53\<close> on.
  The infinities and NaN are not values of this reading, and a result beyond the
  largest double is not turned into an infinity; the view ranges reached from the
  initial range \<open>(0, 1)\<close> by the keyboard gestures stay between \<open>0\<close> and \<open>1\<close>.
\<close>

definition roundEven :: "real \<Rightarrow> int" where
  "roundEven x =
     (let n = \<lfloor>x\<rfloor>; r = x - of_int n
      in if r < 1/2 then n else if r > 1/2 then n + 1 else if even n then n else n + 1)"

function scaleUp :: "real \<Rightarrow> nat \<Rightarrow> nat" where
  "scaleUp a k = (if 2 ^ 52 \<le> a * 2 ^ k \<or> 1074 \<le> k then k else scaleUp a (k + 1))"
  by pat_completeness auto
termination
  by (relation "measure (\<lambda>(a, k). 1074 - k)") auto

function scaleDown :: "real \<Rightarrow> nat \<Rightarrow> nat" where
  "scaleDown a j = (if a / 2 ^ j < 2 ^ 53 \<or> 971 \<le> j then j else scaleDown a (j + 1))"
  by pat_completeness auto
termination
  by (relation "measure (\<lambda>(a, j). 971 - j)") auto

declare scaleUp.simps [simp del] scaleDown.simps [simp del]

definition fl :: "real \<Rightarrow> real" where
  "fl x =
     (if x = 0 then 0
      else if \<bar>x\<bar> < 2 ^ 53 then
        (let k = scaleUp \<bar>x\<bar> 0 in sgn x * of_int (roundEven (\<bar>x\<bar> * 2 ^ k)) / 2 ^ k)
      else
        (let j = scaleDown \<bar>x\<bar> 0 in sgn x * of_int (roundEven (\<bar>x\<bar> / 2 ^ j)) * 2 ^ j))"

text \<open>The operators \<open>+\<close> and \<open>-\<close> on numbers, and the division by the literal \<open>2\<close>.\<close>

definition add64 :: "real \<Rightarrow> real \<Rightarrow> real" where
  "add64 a b = fl (a + b)"

definition sub64 :: "real \<Rightarrow> real \<Rightarrow> real" where
  "sub64 a b = fl (a - b)"

definition half64 :: "real \<Rightarrow> real" where
  "half64 a = fl (a / 2)"

text \<open>The constants of the page and the object \<open>shortcutConfig\<close>, as doubles.\<close>

definition VIEW_MIN_RANGE64 :: real where
  "VIEW_MIN_RANGE64 = fl 0.01"

definition VIEW_CHANGE_BASE64 :: real where
  "VIEW_CHANGE_BASE64 = fl 0.005"

definition VIEW_CHANGE_FAST64 :: real where
  "VIEW_CHANGE_FAST64 = fl 0.05"

definition shortcutConfig64 :: "(string \<times> real \<times> real) list" where
  "shortcutConfig64 =
     [(''panLeft'', (- VIEW_CHANGE_BASE64, - VIEW_CHANGE_BASE64)),
      (''panLeftFast'', (- VIEW_CHANGE_FAST64, - VIEW_CHANGE_FAST64)),
      (''panRight'', (VIEW_CHANGE_BASE64, VIEW_CHANGE_BASE64)),
      (''panRightFast'', (VIEW_CHANGE_FAST64, VIEW_CHANGE_FAST64)),
      (''zoomIn'', (VIEW_CHANGE_BASE64, - VIEW_CHANGE_BASE64)),
      (''zoomInFast'', (VIEW_CHANGE_FAST64, - VIEW_CHANGE_FAST64)),
      (''zoomOut'', (- VIEW_CHANGE_BASE64, VIEW_CHANGE_BASE64)),
      (''zoomOutFast'', (- VIEW_CHANGE_FAST64, VIEW_CHANGE_FAST64))]"

text \<open>
  \<open>_adjustViewRange(startChange, endChange, trackSrc)\<close> in binary64: the method of the
  source with each operation rounded. The comparisons are exact on doubles.
\<close>

definition adjustViewRange64 ::
  "real \<Rightarrow> real \<Rightarrow> string \<Rightarrow> ('tr, 'v) TState \<Rightarrow> 'x effect list \<times> ('tr, 'v) TState" where
  "adjustViewRange64 startChange endChange trackSrc st =
     (case current (time (viewRange st)) of (viewStart, viewEnd) \<Rightarrow>
        (let start = clamp (add64 viewStart startChange) 0 (fl 0.99);
             end = clamp (add64 viewEnd endChange) (fl 0.01) 1
         in if sub64 end start < VIEW_MIN_RANGE64 then
              if startChange < 0 \<and> endChange < 0 then
                updateViewRangeTime start (add64 start VIEW_MIN_RANGE64) (Some trackSrc) st
              else if startChange > 0 \<and> endChange > 0 then
                updateViewRangeTime start (add64 start VIEW_MIN_RANGE64) (Some trackSrc) st
              else
                (let center = add64 viewStart (half64 (sub64 viewEnd viewStart))
                 in updateViewRangeTime (sub64 center (half64 VIEW_MIN_RANGE64))
                      (add64 center (half64 VIEW_MIN_RANGE64)) (Some trackSrc) st)
            else updateViewRangeTime start end (Some trackSrc) st))"

text \<open>
  \<open>componentDidMount\<close> registers the shortcut callbacks over
  \<open>(a, b) => this._adjustViewRange(a, b, 'kbd')\<close>; \<open>makeShortcutCallbacks\<close> maps every
  entry of \<open>shortcutConfig\<close> to its handler.
\<close>

definition adjViewRange64 ::
  "real \<Rightarrow> real \<Rightarrow> ('tr, 'v) TState \<Rightarrow> 'x effect list \<times> ('tr, 'v) TState" where
  "adjViewRange64 a b = adjustViewRange64 a b ''kbd''"

definition makeShortcutCallbacks64 ::
  "(real \<Rightarrow> real \<Rightarrow> 's \<Rightarrow> 'x effect list \<times> 's) \<Rightarrow> (string \<times> ('s \<Rightarrow> 'x effect list \<times> 's)) list" where
  "makeShortcutCallbacks64 adjRange =
     map (\<lambda>(name, change). (name, getHandler adjRange change)) shortcutConfig64"

definition shortcutCallbacks64 ::
  "(string \<times> (('tr, 'v) TState \<Rightarrow> 'x effect list \<times> ('tr, 'v) TState)) list" where
  "shortcutCallbacks64 = makeShortcutCallbacks64 adjViewRange64"

text \<open>
  The pair that the binary64 method passes to \<open>updateViewRangeTime\<close>
  (\<open>adjustViewRange64_range\<close> below), and one press of \<open>zoomInFast\<close> on ranges.
\<close>

definition adjustedRange64 :: "real \<times> real \<Rightarrow> real \<Rightarrow> real \<Rightarrow> real \<times> real" where
  "adjustedRange64 r startChange endChange =
     (let start = clamp (add64 (fst r) startChange) 0 (fl 0.99);
          end = clamp (add64 (snd r) endChange) (fl 0.01) 1
      in if sub64 end start < VIEW_MIN_RANGE64 then
           if (startChange < 0 \<and> endChange < 0) \<or> (startChange > 0 \<and> endChange > 0)
           then (start, add64 start VIEW_MIN_RANGE64)
           else (sub64 (add64 (fst r) (half64 (sub64 (snd r) (fst r)))) (half64 VIEW_MIN_RANGE64),
                 add64 (add64 (fst r) (half64 (sub64 (snd r) (fst r)))) (half64 VIEW_MIN_RANGE64))
         else (start, end))"

definition zoomStep64 :: "real \<times> real \<Rightarrow> real \<times> real" where
  "zoomStep64 r = adjustedRange64 r VIEW_CHANGE_FAST64 (- VIEW_CHANGE_FAST64)"

section \<open>The trace page: subtrace, representation and display\<close>

text \<open>
  \<open>createSubtraceIfNeeded\<close>. \<open>createSubtrace\<close> is imported from
  \<open>../../model/trace-subtree\<close> and is a parameter here; it returns a trace or null. The
  guard \<open>trace && trace.data && spanId\<close> needs the fetched trace, its data and a span id
  that is not the empty string.
\<close>

definition createSubtraceIfNeeded ::
  "('tr \<Rightarrow> string \<Rightarrow> 'tr option) \<Rightarrow> 'tr TProps \<Rightarrow> ('tr, 'v) TState \<Rightarrow> ('tr, 'v) TState" where
  "createSubtraceIfNeeded createSubtrace props st =
     (case trace props of
        None \<Rightarrow> st\<lparr>subtrace := None\<rparr>
      | Some t \<Rightarrow>
          (case data t of
             None \<Rightarrow> st\<lparr>subtrace := None\<rparr>
           | Some d \<Rightarrow>
               (case spanId (params props) of
                  None \<Rightarrow> st\<lparr>subtrace := None\<rparr>
                | Some sid \<Rightarrow>
                    if sid \<noteq> [] then st\<lparr>subtrace := createSubtrace d sid\<rparr>
                    else st\<lparr>subtrace := None\<rparr>)))"

text \<open>
  \<open>setTraceRepresentation\<close>. The transform is source text, turned into a function by
  \<open>new Function('return ' + text)()\<close>; that evaluation is the parameter \<open>newFunction\<close>,
  which throws (\<open>Inl\<close>) or yields the transform. The transform is called with the
  object \<open>trace.data\<close> of the props itself, not with a copy: its result here is what it
  leaves in that object, paired with what it throws or returns (a trace or null), and
  the props hold the object as the transform left it. Everything thrown inside the
  \<open>try\<close> block is caught and passed to \<open>console.error\<close>.
\<close>

definition setTraceRepresentation ::
  "(string \<Rightarrow> 'x + ('tr \<Rightarrow> 'tr \<times> ('x + 'tr option))) \<Rightarrow> TraceRepresentation \<Rightarrow> 'tr TProps \<Rightarrow>
     ('tr, 'v) TState \<Rightarrow> 'x effect list \<times> 'tr TProps \<times> ('tr, 'v) TState" where
  "setTraceRepresentation newFunction repr props st =
     (case trace props of
        None \<Rightarrow> ([], props, st)
      | Some t \<Rightarrow>
          (case data t of
             None \<Rightarrow> ([], props, st)
           | Some d \<Rightarrow>
               (case newFunction (''return '' @ transformFunction repr) of
                  Inl err \<Rightarrow>
                    ([ConsoleError ''Error applying trace representation:'' err], props, st)
                | Inr transformFunc \<Rightarrow>
                    (case transformFunc d of
                       (d', Inl err) \<Rightarrow>
                         ([ConsoleError ''Error applying trace representation:'' err],
                          props\<lparr>trace := Some (t\<lparr>data := Some d'\<rparr>)\<rparr>, st)
                     | (d', Inr transformed) \<Rightarrow>
                         ([], props\<lparr>trace := Some (t\<lparr>data := Some d'\<rparr>)\<rparr>,
                          st\<lparr>currentRepresentation := name repr,
                             transformedTrace := transformed\<rparr>)))))"

text \<open>
  \<open>render\<close>, as far as the choice of the displayed trace goes. The page is a loading
  indicator, an error message, or the header (which gets \<open>data\<close> as its trace) over
  the view chosen by \<open>viewType\<close>; no view is drawn while \<open>headerHeight\<close> is falsy. The
  graph view draws \<open>this.traceDagEV\<close> and the flamegraph view gets the fetched trace
  itself.
\<close>

datatype 'tr view =
    NoView
  | TimelineView 'tr
  | GraphView
  | StatisticsView 'tr
  | SpanView 'tr
  | FlamegraphView "'tr FetchedTrace"

datatype 'tr rendered =
    LoadingIndicator
  | ErrorMessage string
  | TracePage 'tr "'tr view"

definition errorText :: "'tr FetchedTrace \<Rightarrow> string" where
  "errorText t = (case error t of Some e \<Rightarrow> if e \<noteq> [] then e else ''Unknown error''
                  | None \<Rightarrow> ''Unknown error'')"

definition selectData :: "'tr FetchedTrace \<Rightarrow> ('tr, 'v) TState \<Rightarrow> 'tr option" where
  "selectData t st =
     (case subtrace st of
        Some s \<Rightarrow> Some s
      | None \<Rightarrow> (case transformedTrace st of Some r \<Rightarrow> Some r | None \<Rightarrow> data t))"

definition selectView :: "'tr FetchedTrace \<Rightarrow> 'tr \<Rightarrow> ('tr, 'v) TState \<Rightarrow> 'tr view" where
  "selectView t d st =
     (let shown = (case headerHeight st of Some h \<Rightarrow> h \<noteq> 0 | None \<Rightarrow> False)
      in if \<not> shown then NoView
         else (case viewType st of
                 TraceTimelineViewer \<Rightarrow> TimelineView d
               | TraceGraph \<Rightarrow> GraphView
               | TraceStatistics \<Rightarrow> StatisticsView d
               | TraceSpansView \<Rightarrow> SpanView d
               | TraceFlamegraph \<Rightarrow> FlamegraphView t))"

definition render :: "'tr TProps \<Rightarrow> ('tr, 'v) TState \<Rightarrow> 'tr rendered" where
  "render props st =
     (case trace props of
        None \<Rightarrow> LoadingIndicator
      | Some t \<Rightarrow>
          if state t = LOADING then LoadingIndicator
          else (case selectData t st of
                  None \<Rightarrow> ErrorMessage (errorText t)
                | Some d \<Rightarrow>
                    if state t = ERROR then ErrorMessage (errorText t)
                    else TracePage d (selectView t d st)))"

text \<open>
  A small evaluator for the examples: a transform that returns, one that throws when
  applied, one that empties the trace it is given and then throws, and a syntax error
  for every other text.
\<close>

definition sampleNewFunction ::
  "string \<Rightarrow> string + (string \<Rightarrow> string \<times> (string + string option))" where
  "sampleNewFunction src =
     (if src = ''return t => t.upper'' then Inr (\<lambda>t. (t, Inr (Some (t @ ''!''))))
      else if src = ''return t => t.missing.x'' then Inr (\<lambda>t. (t, Inl ''TypeError''))
      else if src = ''return t => wipe(t)'' then Inr (\<lambda>t. (''emptied'', Inl ''Error''))
      else Inl ''SyntaxError'')"

section \<open>The reference link\<close>








section \<open>View range: facts about the methods\<close>

lemma min_range_frac: "VIEW_MIN_RANGE = 1 / 100"
  by (simp add: VIEW_MIN_RANGE_def)

lemma clamp_max_min: "clamp x lo hi = max lo (min x hi)"
  by (simp add: clamp_def Let_def max_def min_def)

lemma updateViewRangeTime_range:
  "currentRange (snd (updateViewRangeTime start end trackSrc st)) = (start, end)"
  by (simp add: updateViewRangeTime_def currentRange_def Let_def)

lemma adjustViewRange_range:
  "currentRange (snd (adjustViewRange sc ec src st)) = adjustedRange (currentRange st) sc ec"
  by (cases "current (time (viewRange st))")
     (simp add: adjustViewRange_def adjustedRange_def Let_def updateViewRangeTime_range
        currentRange_def[of st])

lemma press_range:
  assumes step: "\<And>s. currentRange (snd (h s)) = f (currentRange s)"
  shows "currentRange (press h n st) = (f ^^ n) (currentRange st)"
proof (induction n arbitrary: st)
  case 0
  show ?case by simp
next
  case (Suc n)
  have "currentRange (press h (Suc n) st) = (f ^^ n) (currentRange (snd (h st)))"
    using Suc.IH by simp
  also have "\<dots> = (f ^^ n) (f (currentRange st))" by (simp add: step)
  also have "\<dots> = (f ^^ Suc n) (currentRange st)" by (simp add: funpow_swap1)
  finally show ?case .
qed

lemma adjustedRange_zero:
  assumes "validRange r"
  shows "adjustedRange r 0 0 = r"
proof -
  obtain s e where r: "r = (s, e)" by (cases r)
  from assms r have v: "0 \<le> s" "s < e" "e \<le> 1" "e - s \<ge> 1/100"
    by (simp_all add: validRange_def min_range_frac)
  have "max 0 (min s (99/100)) = s" "max (1/100) (min e 1) = e"
    using v by linarith+
  with v show ?thesis
    by (simp add: adjustedRange_def r clamp_max_min Let_def min_range_frac)
qed

lemma constructor_range: "currentRange (constructor_state c reps) = (0, 1)"
  by (simp add: constructor_state_def currentRange_def)

lemma validRange_full: "validRange (0, 1)"
  by (simp add: validRange_def min_range_frac)

section \<open>C2: the adjustment rule\<close>

lemma adjustedRange_spec: "adjustedRange r startDelta endDelta = spec_adjust r startDelta endDelta"
proof -
  have "fst r + (snd r - fst r) / 2 = (fst r + snd r) / 2" by argo
  then show ?thesis
    by (simp add: adjustedRange_def spec_adjust_def spec_clamp_def clamp_max_min Let_def)
qed

text \<open>
  C2. For every current range and every pair of deltas, the range that \<open>adjust\<close>
  stores is the one the rule of the specification gives: start clamped to
  \<open>[0, 0.99]\<close>, end clamped to \<open>[0.01, 1]\<close>, and, when the result is narrower than
  \<open>VIEW_MIN_RANGE\<close>, the end pinned to start plus \<open>VIEW_MIN_RANGE\<close> if both deltas are
  negative or both are positive, and otherwise the minimum-width window centred at the
  midpoint of the old range.
\<close>

theorem adjust_follows_spec_rule:
  "currentRange (snd (adjustViewRange startDelta endDelta source st)) =
     spec_adjust (currentRange st) startDelta endDelta"
  by (simp add: adjustViewRange_range adjustedRange_spec)

section \<open>C8: zero deltas change nothing\<close>

text \<open>
  C8. For every state whose current range satisfies the range invariant, \<open>adjust\<close>
  with both deltas zero stores the same range again, and so does any number of
  repeated zero-delta calls.
\<close>

theorem adjust_zero_is_noop:
  assumes "validRange (currentRange st)"
  shows "currentRange (snd (adjustViewRange 0 0 source st)) = currentRange st
       \<and> currentRange (press (adjustViewRange 0 0 source) n st) = currentRange st"
proof -
  have one: "currentRange (snd (adjustViewRange 0 0 source st)) = currentRange st"
    using assms by (simp add: adjustViewRange_range adjustedRange_zero)
  have fixed: "((\<lambda>r. adjustedRange r 0 0) ^^ k) (currentRange st) = currentRange st" for k
    using assms by (induction k) (simp_all add: adjustedRange_zero)
  have "currentRange (press (adjustViewRange 0 0 source) n st) =
          ((\<lambda>r. adjustedRange r 0 0) ^^ n) (currentRange st)"
    by (rule press_range) (rule adjustViewRange_range)
  with fixed one show ?thesis by simp
qed

theorem adjust_zero_is_noop_witness:
  "validRange (currentRange (constructor_state False None :: (unit, unit) TState))
   \<and> currentRange (snd (adjustViewRange 0 0 ''kbd'' (constructor_state False None :: (unit, unit) TState)
        :: unit effect list \<times> (unit, unit) TState)) = (0, 1)
   \<and> currentRange (press (adjustViewRange 0 0 ''kbd''
        :: (unit, unit) TState \<Rightarrow> unit effect list \<times> (unit, unit) TState) 3
          (constructor_state False None)) = (0, 1)"
proof -
  let ?st = "constructor_state False None :: (unit, unit) TState"
  have a: "validRange (currentRange ?st)"
    by (simp add: constructor_range validRange_full)
  have c: "currentRange ?st = (0, 1)" by (rule constructor_range)
  from adjust_zero_is_noop [OF a, of "''kbd''" 3, where ?'c = unit] a c show ?thesis by metis
qed

section \<open>C3: setting an explicit range\<close>

text \<open>
  C3, as stated: \<open>setExplicitRange\<close> clamps its arguments as \<open>adjust\<close> does before it
  stores them. \<open>updateViewRangeTime\<close> does not: the arguments \<open>(-1, 2)\<close> are stored as
  they are, where the clamps give \<open>(0, 1)\<close>, and \<open>(0.5, 0.5)\<close> is stored with width
  zero.
\<close>

theorem explicit_range_not_clamped_counterexample:
  "currentRange (snd (updateViewRangeTime (- 1) 2 None
       (constructor_state False None :: (unit, unit) TState)
       :: unit effect list \<times> (unit, unit) TState)) = (- 1, 2)
   \<and> (clamp (- 1) 0 0.99, clamp 2 0.01 1) = (0, 1)
   \<and> currentRange (snd (updateViewRangeTime (- 1) 2 None
       (constructor_state False None :: (unit, unit) TState)
       :: unit effect list \<times> (unit, unit) TState)) \<noteq> (clamp (- 1) 0 0.99, clamp 2 0.01 1)
   \<and> currentRange (snd (updateViewRangeTime 0.5 0.5 None
       (constructor_state False None :: (unit, unit) TState)
       :: unit effect list \<times> (unit, unit) TState)) = (0.5, 0.5)
   \<and> \<not> validRange (0.5, 0.5)"
  by (simp add: updateViewRangeTime_range clamp_def validRange_def)

text \<open>
  C3, amended. \<open>setExplicitRange(start, end, source?)\<close> stores exactly
  \<open>(start, end)\<close> as the current range, without clamping and without a minimum
  width, and the time object holds nothing else afterwards; when \<open>source\<close> is given
  and is not the empty string it reports \<open>(source, newRange, oldRange)\<close>, and
  otherwise it reports nothing.
\<close>

theorem explicit_range_stored_as_given:
  "currentRange (snd (updateViewRangeTime start end source st)) = (start, end)
   \<and> others (time (viewRange (snd (updateViewRangeTime start end source st)))) = Map.empty
   \<and> (source = Some src \<and> src \<noteq> [] \<longrightarrow>
        fst (updateViewRangeTime start end source st) =
          [TrackRange src (start, end) (currentRange st)])
   \<and> (source = None \<or> source = Some [] \<longrightarrow> fst (updateViewRangeTime start end source st) = [])"
  by (auto simp: updateViewRangeTime_def currentRange_def Let_def)

theorem explicit_range_stored_as_given_witness:
  "currentRange (snd (updateViewRangeTime (- 1) 2 (Some ''drag'')
       (constructor_state False None :: (unit, unit) TState)
       :: unit effect list \<times> (unit, unit) TState)) = (- 1, 2)
   \<and> fst (updateViewRangeTime (- 1) 2 (Some ''drag'')
       (constructor_state False None :: (unit, unit) TState)
       :: unit effect list \<times> (unit, unit) TState) = [TrackRange ''drag'' (- 1, 2) (0, 1)]"
proof -
  let ?st = "constructor_state False None :: (unit, unit) TState"
  have ne: "Some ''drag'' = Some ''drag'' \<and> ''drag'' \<noteq> []" by simp
  have r: "currentRange ?st = (0, 1)" by (rule constructor_range)
  note a = explicit_range_stored_as_given [of "- 1" 2 "Some ''drag''" ?st "''drag''", where ?'c = unit]
  from a have a1: "currentRange (snd (updateViewRangeTime (- 1) 2 (Some ''drag'') ?st
       :: unit effect list \<times> (unit, unit) TState)) = (- 1, 2)"
    by (rule conjunct1)
  from a ne have a2: "fst (updateViewRangeTime (- 1) 2 (Some ''drag'') ?st
       :: unit effect list \<times> (unit, unit) TState) = [TrackRange ''drag'' (- 1, 2) (currentRange ?st)]"
    by blast
  from a1 a2 r show ?thesis by simp
qed

section \<open>C9: partial updates of the time range\<close>

text \<open>
  C9. For every state and every partial update, \<open>updatePartial\<close> gives each field the
  update carries exactly the supplied value (nothing is clamped), every field of the
  time object the update does not carry keeps its value (the committed current range
  too, when the update does not carry it), and everything else in the view range and
  in the page state is unchanged.
\<close>

theorem partial_update_merges_fields:
  "(update_current update = Some c \<longrightarrow>
        current (time (viewRange (updateNextViewRangeTime update st))) = c)
   \<and> (update_current update = None \<longrightarrow>
        current (time (viewRange (updateNextViewRangeTime update st))) = current (time (viewRange st)))
   \<and> (update_others update k = Some v \<longrightarrow>
        others (time (viewRange (updateNextViewRangeTime update st))) k = Some v)
   \<and> (update_others update k = None \<longrightarrow>
        others (time (viewRange (updateNextViewRangeTime update st))) k = others (time (viewRange st)) k)
   \<and> (viewRange (updateNextViewRangeTime update st))\<lparr>time := time (viewRange st)\<rparr> = viewRange st
   \<and> (updateNextViewRangeTime update st)\<lparr>viewRange := viewRange st\<rparr> = st"
  by (simp add: updateNextViewRangeTime_def Let_def map_add_def)

theorem partial_update_merges_fields_witness:
  "current (time (viewRange (updateNextViewRangeTime
       \<lparr>update_current = None, update_others = [''cursor'' \<mapsto> (5/2 :: real)]\<rparr>
       (constructor_state False None :: (unit, real) TState)))) = (0, 1)
   \<and> others (time (viewRange (updateNextViewRangeTime
       \<lparr>update_current = None, update_others = [''cursor'' \<mapsto> (5/2 :: real)]\<rparr>
       (constructor_state False None :: (unit, real) TState)))) ''cursor'' = Some (5/2)"
proof -
  let ?st = "constructor_state False None :: (unit, real) TState"
  let ?u = "\<lparr>update_current = None, update_others = [''cursor'' \<mapsto> (5/2 :: real)]\<rparr>"
  have h1: "update_current ?u = None" by simp
  have h2: "update_others ?u ''cursor'' = Some (5/2)" by simp
  have s1: "current (time (viewRange ?st)) = (0, 1)" by (simp add: constructor_state_def)
  note a = partial_update_merges_fields [of ?u "(0, 1)" ?st "''cursor''" "5/2"]
  from a h1 have c1: "current (time (viewRange (updateNextViewRangeTime ?u ?st))) = current (time (viewRange ?st))"
    by blast
  from a h2 have c2: "others (time (viewRange (updateNextViewRangeTime ?u ?st))) ''cursor'' = Some (5/2)"
    by blast
  from c1 c2 s1 show ?thesis by simp
qed

section \<open>C6: no subtrace without a trace or a focus span\<close>

text \<open>
  C6. If the fetched trace or its data is absent, or the focus span id is absent or
  empty, the derived subtrace is null, so the data chosen for display is the
  transformed trace when there is one and the original trace data otherwise.
\<close>

theorem no_trace_or_no_focus_gives_null:
  assumes "trace props = None \<or> (\<exists>t. trace props = Some t \<and> data t = None)
           \<or> spanId (params props) = None \<or> spanId (params props) = Some []"
  shows "subtrace (createSubtraceIfNeeded createSubtrace props st) = None
       \<and> selectData t (createSubtraceIfNeeded createSubtrace props st) =
           (case transformedTrace st of Some r \<Rightarrow> Some r | None \<Rightarrow> data t)"
  using assms
  by (auto simp: createSubtraceIfNeeded_def selectData_def split: option.splits)

theorem no_trace_or_no_focus_gives_null_witness:
  "subtrace (createSubtraceIfNeeded (\<lambda>d sid. Some d)
       \<lparr>trace = None, params = \<lparr>spanId = Some ''a1''\<rparr>\<rparr>
       ((constructor_state False None :: (string, unit) TState)\<lparr>subtrace := Some ''old''\<rparr>)) = None
   \<and> subtrace (createSubtraceIfNeeded (\<lambda>d sid. Some d)
       \<lparr>trace = Some \<lparr>data = Some ''full'', state = DONE, error = None\<rparr>, params = \<lparr>spanId = None\<rparr>\<rparr>
       ((constructor_state False None :: (string, unit) TState)\<lparr>subtrace := Some ''old''\<rparr>)) = None"
proof -
  let ?st = "(constructor_state False None :: (string, unit) TState)\<lparr>subtrace := Some ''old''\<rparr>"
  let ?p1 = "\<lparr>trace = None, params = \<lparr>spanId = Some ''a1''\<rparr>\<rparr> :: string TProps"
  let ?p2 = "\<lparr>trace = Some \<lparr>data = Some ''full'', state = DONE, error = None\<rparr>,
              params = \<lparr>spanId = None\<rparr>\<rparr> :: string TProps"
  have h1: "trace ?p1 = None \<or> (\<exists>t. trace ?p1 = Some t \<and> data t = None)
           \<or> spanId (params ?p1) = None \<or> spanId (params ?p1) = Some []" by simp
  have h2: "trace ?p2 = None \<or> (\<exists>t. trace ?p2 = Some t \<and> data t = None)
           \<or> spanId (params ?p2) = None \<or> spanId (params ?p2) = Some []" by simp
  from no_trace_or_no_focus_gives_null [OF h1, of "\<lambda>d sid. Some d" ?st]
       no_trace_or_no_focus_gives_null [OF h2, of "\<lambda>d sid. Some d" ?st]
  show ?thesis by blast
qed

section \<open>C5: selecting a representation\<close>

lemma setTraceRepresentation_without_trace:
  assumes "trace props = None \<or> (\<exists>t. trace props = Some t \<and> data t = None)"
  shows "setTraceRepresentation newFunction repr props st = ([], props, st)"
  using assms by (auto simp: setTraceRepresentation_def)

lemma same_data_same_props:
  assumes "trace props = Some t" and "data t = Some d"
  shows "props\<lparr>trace := Some (t\<lparr>data := Some d\<rparr>)\<rparr> = props"
proof -
  from assms(2) have "t\<lparr>data := Some d\<rparr> = t" by simp
  with assms(1) show ?thesis by simp
qed

text \<open>
  C5, as stated: a transform that throws leaves the displayed trace unchanged. The
  transform works on the trace data of the props itself. With no subtrace and no
  transformed trace the page shows that data; a transform that empties it and then
  throws is logged, the state is as before, and the page shows the emptied trace.
\<close>

theorem throwing_transform_changes_display_counterexample:
  "render \<lparr>trace = Some \<lparr>data = Some ''full'', state = DONE, error = None\<rparr>,
            params = \<lparr>spanId = None\<rparr>\<rparr>
      (constructor_state False None :: (string, unit) TState)
     = TracePage ''full'' NoView
   \<and> setTraceRepresentation sampleNewFunction
       \<lparr>name = ''Wipe'', description = None, transformFunction = ''t => wipe(t)''\<rparr>
       \<lparr>trace = Some \<lparr>data = Some ''full'', state = DONE, error = None\<rparr>,
        params = \<lparr>spanId = None\<rparr>\<rparr>
       (constructor_state False None :: (string, unit) TState)
     = ([ConsoleError ''Error applying trace representation:'' ''Error''],
        \<lparr>trace = Some \<lparr>data = Some ''emptied'', state = DONE, error = None\<rparr>,
         params = \<lparr>spanId = None\<rparr>\<rparr>,
        constructor_state False None)
   \<and> render \<lparr>trace = Some \<lparr>data = Some ''emptied'', state = DONE, error = None\<rparr>,
              params = \<lparr>spanId = None\<rparr>\<rparr>
        (constructor_state False None :: (string, unit) TState)
     = TracePage ''emptied'' NoView"
  by (simp add: setTraceRepresentation_def sampleNewFunction_def render_def selectData_def
        selectView_def constructor_state_def)

text \<open>
  C5, amended. The transform of a representation is built and applied when the trace
  data is loaded. If building it throws, or applying it to the trace data throws, the
  stored transformed trace and the current representation name are unchanged (the
  state is not updated at all), the thrown value is passed to \<open>console.error\<close> and the
  method returns normally; the displayed trace is unchanged as well when the transform
  was never applied or left the trace data as it was, while changes it made to the
  trace data before throwing remain. If the transform returns, the stored transformed
  trace becomes exactly its output and the current representation name becomes the
  selected name.
\<close>

theorem representation_selection:
  assumes "trace props = Some t" and "data t = Some d"
  shows "(newFunction (''return '' @ transformFunction repr) = Inl err \<longrightarrow>
            setTraceRepresentation newFunction repr props st =
              ([ConsoleError ''Error applying trace representation:'' err], props, st))
       \<and> (newFunction (''return '' @ transformFunction repr) = Inr f \<and> f d = (d', Inl err) \<longrightarrow>
            setTraceRepresentation newFunction repr props st =
              ([ConsoleError ''Error applying trace representation:'' err],
               props\<lparr>trace := Some (t\<lparr>data := Some d'\<rparr>)\<rparr>, st))
       \<and> (newFunction (''return '' @ transformFunction repr) = Inr f \<and> f d = (d, Inl err) \<longrightarrow>
            setTraceRepresentation newFunction repr props st =
              ([ConsoleError ''Error applying trace representation:'' err], props, st)
            \<and> render (fst (snd (setTraceRepresentation newFunction repr props st)))
                 (snd (snd (setTraceRepresentation newFunction repr props st))) = render props st)
       \<and> (newFunction (''return '' @ transformFunction repr) = Inr f \<and> f d = (d', Inr out) \<longrightarrow>
            setTraceRepresentation newFunction repr props st =
              ([], props\<lparr>trace := Some (t\<lparr>data := Some d'\<rparr>)\<rparr>,
               st\<lparr>currentRepresentation := name repr, transformedTrace := out\<rparr>))"
  using assms
  by (simp add: setTraceRepresentation_def same_data_same_props [OF assms])

theorem representation_selection_witness:
  "setTraceRepresentation sampleNewFunction
       \<lparr>name = ''Broken'', description = None, transformFunction = ''t => {''\<rparr>
       \<lparr>trace = Some \<lparr>data = Some ''full'', state = DONE, error = None\<rparr>, params = \<lparr>spanId = None\<rparr>\<rparr>
       (constructor_state False None :: (string, unit) TState)
     = ([ConsoleError ''Error applying trace representation:'' ''SyntaxError''],
        \<lparr>trace = Some \<lparr>data = Some ''full'', state = DONE, error = None\<rparr>, params = \<lparr>spanId = None\<rparr>\<rparr>,
        constructor_state False None)
   \<and> setTraceRepresentation sampleNewFunction
       \<lparr>name = ''Failing'', description = None, transformFunction = ''t => t.missing.x''\<rparr>
       \<lparr>trace = Some \<lparr>data = Some ''full'', state = DONE, error = None\<rparr>, params = \<lparr>spanId = None\<rparr>\<rparr>
       (constructor_state False None :: (string, unit) TState)
     = ([ConsoleError ''Error applying trace representation:'' ''TypeError''],
        \<lparr>trace = Some \<lparr>data = Some ''full'', state = DONE, error = None\<rparr>, params = \<lparr>spanId = None\<rparr>\<rparr>,
        constructor_state False None)
   \<and> setTraceRepresentation sampleNewFunction
       \<lparr>name = ''Wipe'', description = None, transformFunction = ''t => wipe(t)''\<rparr>
       \<lparr>trace = Some \<lparr>data = Some ''full'', state = DONE, error = None\<rparr>, params = \<lparr>spanId = None\<rparr>\<rparr>
       (constructor_state False None :: (string, unit) TState)
     = ([ConsoleError ''Error applying trace representation:'' ''Error''],
        \<lparr>trace = Some \<lparr>data = Some ''emptied'', state = DONE, error = None\<rparr>, params = \<lparr>spanId = None\<rparr>\<rparr>,
        constructor_state False None)
   \<and> setTraceRepresentation sampleNewFunction
       \<lparr>name = ''Upper'', description = None, transformFunction = ''t => t.upper''\<rparr>
       \<lparr>trace = Some \<lparr>data = Some ''full'', state = DONE, error = None\<rparr>, params = \<lparr>spanId = None\<rparr>\<rparr>
       (constructor_state False None :: (string, unit) TState)
     = ([], \<lparr>trace = Some \<lparr>data = Some ''full'', state = DONE, error = None\<rparr>, params = \<lparr>spanId = None\<rparr>\<rparr>,
        (constructor_state False None)\<lparr>currentRepresentation := ''Upper'',
                                        transformedTrace := Some ''full!''\<rparr>)"
proof -
  let ?t = "\<lparr>data = Some ''full'', state = DONE, error = None\<rparr> :: string FetchedTrace"
  let ?p = "\<lparr>trace = Some ?t, params = \<lparr>spanId = None\<rparr>\<rparr> :: string TProps"
  let ?st = "constructor_state False None :: (string, unit) TState"
  let ?r1 = "\<lparr>name = ''Broken'', description = None, transformFunction = ''t => {''\<rparr>"
  let ?r2 = "\<lparr>name = ''Failing'', description = None, transformFunction = ''t => t.missing.x''\<rparr>"
  let ?r3 = "\<lparr>name = ''Upper'', description = None, transformFunction = ''t => t.upper''\<rparr>"
  let ?r4 = "\<lparr>name = ''Wipe'', description = None, transformFunction = ''t => wipe(t)''\<rparr>"
  let ?f2 = "(\<lambda>t. (t, Inl ''TypeError'')) :: string \<Rightarrow> string \<times> (string + string option)"
  let ?f3 = "(\<lambda>t. (t, Inr (Some (t @ ''!'')))) :: string \<Rightarrow> string \<times> (string + string option)"
  let ?f4 = "(\<lambda>t. (''emptied'', Inl ''Error'')) :: string \<Rightarrow> string \<times> (string + string option)"
  have tr: "trace ?p = Some ?t" by simp
  have da: "data ?t = Some ''full''" by simp
  have e1: "sampleNewFunction (''return '' @ transformFunction ?r1) = Inl ''SyntaxError''"
    by (simp add: sampleNewFunction_def)
  have e2: "sampleNewFunction (''return '' @ transformFunction ?r2) = Inr ?f2
            \<and> ?f2 ''full'' = (''full'', Inl ''TypeError'')"
    by (simp add: sampleNewFunction_def)
  have e3: "sampleNewFunction (''return '' @ transformFunction ?r3) = Inr ?f3
            \<and> ?f3 ''full'' = (''full'', Inr (Some ''full!''))"
    by (simp add: sampleNewFunction_def)
  have e4: "sampleNewFunction (''return '' @ transformFunction ?r4) = Inr ?f4
            \<and> ?f4 ''full'' = (''emptied'', Inl ''Error'')"
    by (simp add: sampleNewFunction_def)
  from representation_selection [OF tr da, of sampleNewFunction ?r1 "''SyntaxError''" ?st] e1
  have c1: "setTraceRepresentation sampleNewFunction ?r1 ?p ?st =
              ([ConsoleError ''Error applying trace representation:'' ''SyntaxError''], ?p, ?st)"
    by blast
  from representation_selection [OF tr da, of sampleNewFunction ?r2 "''TypeError''" ?st ?f2] e2
  have c2: "setTraceRepresentation sampleNewFunction ?r2 ?p ?st =
              ([ConsoleError ''Error applying trace representation:'' ''TypeError''], ?p, ?st)"
    by blast
  from representation_selection [OF tr da, of sampleNewFunction ?r4 "''Error''" ?st ?f4 "''emptied''"] e4
  have c4: "setTraceRepresentation sampleNewFunction ?r4 ?p ?st =
              ([ConsoleError ''Error applying trace representation:'' ''Error''],
               ?p\<lparr>trace := Some (?t\<lparr>data := Some ''emptied''\<rparr>)\<rparr>, ?st)"
    by blast
  from representation_selection [OF tr da, of sampleNewFunction ?r3 _ ?st ?f3 "''full''" "Some ''full!''"] e3
  have c3: "setTraceRepresentation sampleNewFunction ?r3 ?p ?st =
              ([], ?p\<lparr>trace := Some (?t\<lparr>data := Some ''full''\<rparr>)\<rparr>,
               ?st\<lparr>currentRepresentation := name ?r3, transformedTrace := Some ''full!''\<rparr>)"
    by blast
  from c1 c2 c3 c4 show ?thesis by simp
qed

section \<open>C4: which trace is displayed\<close>

text \<open>
  C4, as stated: in every state of the page the subtrace is shown whenever it is
  non-null. With a subtrace in the state, a fetched trace in the error state renders
  the error message, and one that is loading renders the loading indicator.
\<close>

theorem subtrace_not_always_shown_counterexample:
  "subtrace ((constructor_state False None :: (string, unit) TState)\<lparr>subtrace := Some ''sub''\<rparr>) = Some ''sub''
   \<and> render \<lparr>trace = Some \<lparr>data = Some ''full'', state = ERROR, error = None\<rparr>,
               params = \<lparr>spanId = Some ''a1''\<rparr>\<rparr>
        ((constructor_state False None :: (string, unit) TState)\<lparr>subtrace := Some ''sub''\<rparr>)
      = ErrorMessage ''Unknown error''
   \<and> render \<lparr>trace = Some \<lparr>data = None, state = LOADING, error = None\<rparr>,
               params = \<lparr>spanId = Some ''a1''\<rparr>\<rparr>
        ((constructor_state False None :: (string, unit) TState)\<lparr>subtrace := Some ''sub''\<rparr>)
      = LoadingIndicator"
  by (simp add: render_def selectData_def errorText_def constructor_state_def)

text \<open>
  C4, amended. Whenever the fetched trace is present and is neither loading nor in the
  error state, the trace selected for display is the subtrace if it is non-null, else
  the transformed trace if it is non-null, else the original trace data: it is the
  trace of the header, and the trace of the timeline, statistics and span views when
  one of them is drawn; when none of the three is available the page is the error
  message. When the fetched trace is absent or loading the page is the loading
  indicator, and when it is in the error state the page is the error message,
  whatever the subtrace is.
\<close>

theorem display_precedence:
  "(trace props = None \<longrightarrow> render props st = LoadingIndicator)
   \<and> (trace props = Some t \<and> state t = LOADING \<longrightarrow> render props st = LoadingIndicator)
   \<and> (trace props = Some t \<and> state t = ERROR \<longrightarrow> render props st = ErrorMessage (errorText t))
   \<and> (trace props = Some t \<and> state t \<noteq> LOADING \<and> state t \<noteq> ERROR
        \<and> subtrace st = None \<and> transformedTrace st = None \<and> data t = None \<longrightarrow>
          render props st = ErrorMessage (errorText t))
   \<and> (trace props = Some t \<and> state t \<noteq> LOADING \<and> state t \<noteq> ERROR
        \<and> (subtrace st = Some x
            \<or> subtrace st = None \<and> transformedTrace st = Some x
            \<or> subtrace st = None \<and> transformedTrace st = None \<and> data t = Some x) \<longrightarrow>
          (\<exists>v. render props st = TracePage x v)
          \<and> (headerHeight st = None \<or> headerHeight st = Some 0 \<longrightarrow>
                render props st = TracePage x NoView)
          \<and> (headerHeight st = Some h \<and> h \<noteq> 0 \<and> viewType st = TraceTimelineViewer \<longrightarrow>
                render props st = TracePage x (TimelineView x))
          \<and> (headerHeight st = Some h \<and> h \<noteq> 0 \<and> viewType st = TraceStatistics \<longrightarrow>
                render props st = TracePage x (StatisticsView x))
          \<and> (headerHeight st = Some h \<and> h \<noteq> 0 \<and> viewType st = TraceSpansView \<longrightarrow>
                render props st = TracePage x (SpanView x)))"
proof -
  have sel: "selectData t st = Some x"
    if "subtrace st = Some x
        \<or> subtrace st = None \<and> transformedTrace st = Some x
        \<or> subtrace st = None \<and> transformedTrace st = None \<and> data t = Some x"
    using that by (auto simp: selectData_def)
  have none: "selectData t st = None"
    if "subtrace st = None \<and> transformedTrace st = None \<and> data t = None"
    using that by (simp add: selectData_def)
  have err: "render props st = ErrorMessage (errorText t)"
    if "trace props = Some t \<and> state t = ERROR"
    using that by (simp add: render_def split: option.splits)
  have page: "render props st = TracePage x (selectView t x st)"
    if "trace props = Some t \<and> state t \<noteq> LOADING \<and> state t \<noteq> ERROR" and "selectData t st = Some x"
    using that by (simp add: render_def)
  show ?thesis
    using sel none err page
    by (auto simp: render_def selectView_def)
qed

theorem display_precedence_witness:
  "render \<lparr>trace = Some \<lparr>data = Some ''full'', state = DONE, error = None\<rparr>,
            params = \<lparr>spanId = Some ''a1''\<rparr>\<rparr>
      ((constructor_state False None :: (string, unit) TState)
         \<lparr>headerHeight := Some 48, transformedTrace := Some ''shaped'', subtrace := Some ''sub''\<rparr>)
     = TracePage ''sub'' (TimelineView ''sub'')
   \<and> render \<lparr>trace = Some \<lparr>data = Some ''full'', state = DONE, error = None\<rparr>,
            params = \<lparr>spanId = None\<rparr>\<rparr>
      ((constructor_state False None :: (string, unit) TState)
         \<lparr>headerHeight := Some 48, viewType := TraceStatistics, transformedTrace := Some ''shaped''\<rparr>)
     = TracePage ''shaped'' (StatisticsView ''shaped'')
   \<and> render \<lparr>trace = Some \<lparr>data = Some ''full'', state = DONE, error = None\<rparr>,
            params = \<lparr>spanId = None\<rparr>\<rparr>
      ((constructor_state False None :: (string, unit) TState)
         \<lparr>headerHeight := Some 48, viewType := TraceSpansView\<rparr>)
     = TracePage ''full'' (SpanView ''full'')
   \<and> render \<lparr>trace = Some \<lparr>data = Some ''full'', state = DONE, error = None\<rparr>,
            params = \<lparr>spanId = None\<rparr>\<rparr>
      ((constructor_state False None :: (string, unit) TState)\<lparr>subtrace := Some ''sub''\<rparr>)
     = TracePage ''sub'' NoView
   \<and> render \<lparr>trace = Some \<lparr>data = Some ''full'', state = ERROR, error = Some ''HTTP 500''\<rparr>,
            params = \<lparr>spanId = None\<rparr>\<rparr>
      ((constructor_state False None :: (string, unit) TState)\<lparr>subtrace := Some ''sub''\<rparr>)
     = ErrorMessage ''HTTP 500''
   \<and> render \<lparr>trace = None, params = \<lparr>spanId = None\<rparr>\<rparr>
      ((constructor_state False None :: (string, unit) TState)\<lparr>subtrace := Some ''sub''\<rparr>)
     = LoadingIndicator"
proof -
  let ?t = "\<lparr>data = Some ''full'', state = DONE, error = None\<rparr> :: string FetchedTrace"
  let ?te = "\<lparr>data = Some ''full'', state = ERROR, error = Some ''HTTP 500''\<rparr> :: string FetchedTrace"
  let ?p1 = "\<lparr>trace = Some ?t, params = \<lparr>spanId = Some ''a1''\<rparr>\<rparr> :: string TProps"
  let ?p2 = "\<lparr>trace = Some ?t, params = \<lparr>spanId = None\<rparr>\<rparr> :: string TProps"
  let ?pe = "\<lparr>trace = Some ?te, params = \<lparr>spanId = None\<rparr>\<rparr> :: string TProps"
  let ?pn = "\<lparr>trace = None, params = \<lparr>spanId = None\<rparr>\<rparr> :: string TProps"
  let ?s0 = "constructor_state False None :: (string, unit) TState"
  let ?s1 = "?s0\<lparr>headerHeight := Some 48, transformedTrace := Some ''shaped'', subtrace := Some ''sub''\<rparr>"
  let ?s2 = "?s0\<lparr>headerHeight := Some 48, viewType := TraceStatistics, transformedTrace := Some ''shaped''\<rparr>"
  let ?s3 = "?s0\<lparr>headerHeight := Some 48, viewType := TraceSpansView\<rparr>"
  let ?s4 = "?s0\<lparr>subtrace := Some ''sub''\<rparr>"
  have ok1: "trace ?p1 = Some ?t \<and> state ?t \<noteq> LOADING \<and> state ?t \<noteq> ERROR" by simp
  have ok2: "trace ?p2 = Some ?t \<and> state ?t \<noteq> LOADING \<and> state ?t \<noteq> ERROR" by simp
  have a1: "subtrace ?s1 = Some ''sub''" by simp
  have a2: "subtrace ?s2 = None \<and> transformedTrace ?s2 = Some ''shaped''"
    by (simp add: constructor_state_def)
  have a3: "subtrace ?s3 = None \<and> transformedTrace ?s3 = None \<and> data ?t = Some ''full''"
    by (simp add: constructor_state_def)
  have a4: "subtrace ?s4 = Some ''sub''" by simp
  have v1: "headerHeight ?s1 = Some 48 \<and> (48 :: real) \<noteq> 0 \<and> viewType ?s1 = TraceTimelineViewer"
    by (simp add: constructor_state_def)
  have v2: "headerHeight ?s2 = Some 48 \<and> (48 :: real) \<noteq> 0 \<and> viewType ?s2 = TraceStatistics"
    by simp
  have v3: "headerHeight ?s3 = Some 48 \<and> (48 :: real) \<noteq> 0 \<and> viewType ?s3 = TraceSpansView"
    by simp
  have v4: "headerHeight ?s4 = None" by (simp add: constructor_state_def)
  have e5: "trace ?pe = Some ?te \<and> state ?te = ERROR" by simp
  have t5: "errorText ?te = ''HTTP 500''" by (simp add: errorText_def)
  have e6: "trace ?pn = None" by simp
  from display_precedence [of ?p1 ?s1 ?t "''sub''" 48] ok1 a1 v1
  have c1: "render ?p1 ?s1 = TracePage ''sub'' (TimelineView ''sub'')" by blast
  from display_precedence [of ?p2 ?s2 ?t "''shaped''" 48] ok2 a2 v2
  have c2: "render ?p2 ?s2 = TracePage ''shaped'' (StatisticsView ''shaped'')" by blast
  from display_precedence [of ?p2 ?s3 ?t "''full''" 48] ok2 a3 v3
  have c3: "render ?p2 ?s3 = TracePage ''full'' (SpanView ''full'')" by blast
  from display_precedence [of ?p2 ?s4 ?t "''sub''"] ok2 a4 v4
  have c4: "render ?p2 ?s4 = TracePage ''sub'' NoView" by blast
  from display_precedence [of ?pe ?s4 ?te] e5
  have "render ?pe ?s4 = ErrorMessage (errorText ?te)" by blast
  with t5 have c5: "render ?pe ?s4 = ErrorMessage ''HTTP 500''" by simp
  from display_precedence [of ?pn ?s4] e6
  have c6: "render ?pn ?s4 = LoadingIndicator" by blast
  from c1 c2 c3 c4 c5 c6 show ?thesis by (intro conjI)
qed

section \<open>C10: the reference link\<close>





section \<open>Binary64: rounding at a known binary place\<close>

lemma scaleUp_eq:
  assumes "2 ^ 52 \<le> a * 2 ^ k" and "a * 2 ^ k < 2 ^ 53" and "j \<le> k" and "k \<le> 1074"
  shows "scaleUp a j = k"
  using assms(3)
proof (induction "k - j" arbitrary: j)
  case 0
  then have "j = k" by simp
  with assms(1) show ?case by (subst scaleUp.simps) simp
next
  case (Suc d)
  then have jk: "j < k" by simp
  have a0: "0 \<le> a"
  proof (rule ccontr)
    assume "\<not> 0 \<le> a"
    then have "a * 2 ^ k \<le> 0" by (simp add: mult_le_0_iff)
    with assms(1) show False by simp
  qed
  from jk have "Suc j \<le> k" by simp
  then have "(2::real) ^ Suc j \<le> 2 ^ k" by (intro power_increasing) simp_all
  with a0 have "a * 2 ^ Suc j \<le> a * 2 ^ k" by (intro mult_left_mono)
  with assms(2) have "a * 2 ^ j * 2 < 2 ^ 53" by (simp add: mult.assoc)
  then have small: "\<not> 2 ^ 52 \<le> a * 2 ^ j" by simp
  from jk assms(4) have low: "\<not> 1074 \<le> j" by simp
  have "scaleUp a j = scaleUp a (j + 1)"
    using small low by (subst scaleUp.simps) simp
  also have "\<dots> = k"
    using Suc.hyps(1)[of "j + 1"] Suc.hyps(2) jk by simp
  finally show ?case .
qed

lemma fl_at:
  assumes "2 ^ 52 \<le> \<bar>x\<bar> * 2 ^ k" and "\<bar>x\<bar> * 2 ^ k < 2 ^ 53" and "k \<le> 1074"
  shows "fl x = sgn x * of_int (roundEven (\<bar>x\<bar> * 2 ^ k)) / 2 ^ k"
proof -
  have nz: "x \<noteq> 0" using assms(1) by auto
  have "\<bar>x\<bar> * 1 \<le> \<bar>x\<bar> * 2 ^ k" by (intro mult_left_mono) simp_all
  with assms(2) have lt: "\<bar>x\<bar> < 2 ^ 53" by simp
  have "scaleUp \<bar>x\<bar> 0 = k" using assms by (intro scaleUp_eq) simp_all
  with nz lt show ?thesis by (simp add: fl_def)
qed

lemma fl_zero: "fl 0 = 0"
  by (simp add: fl_def)

lemma fl_lower_end: "fl (1 / 100) = 5764607523034235 / 576460752303423488"
  by (simp add: roundEven_def fl_at [where k = 59])

lemma fl_upper_start: "fl (99 / 100) = 4458563631096791 / 4503599627370496"
  by (simp add: roundEven_def fl_at [where k = 53])

lemma min_range64: "VIEW_MIN_RANGE64 = 5764607523034235 / 576460752303423488"
  by (simp add: VIEW_MIN_RANGE64_def roundEven_def fl_at [where k = 59])

lemma change_base64: "VIEW_CHANGE_BASE64 = 5764607523034235 / 1152921504606846976"
  by (simp add: VIEW_CHANGE_BASE64_def roundEven_def fl_at [where k = 60])

lemma change_fast64: "VIEW_CHANGE_FAST64 = 3602879701896397 / 72057594037927936"
  by (simp add: VIEW_CHANGE_FAST64_def roundEven_def fl_at [where k = 57])

lemmas eval64 = adjustedRange64_def zoomStep64_def add64_def sub64_def half64_def clamp_def Let_def
  min_range64 change_base64 change_fast64 fl_lower_end fl_upper_start fl_zero roundEven_def

lemma zoom64_step0: "zoomStep64 (0, 1) = (3602879701896397 / 72057594037927936, 4278419646001971 / 4503599627370496)"
  by (simp add: eval64 fl_at [where k = 53] fl_at [where k = 57])

lemma zoom64_step1: "zoomStep64 (3602879701896397 / 72057594037927936, 4278419646001971 / 4503599627370496) = (3602879701896397 / 36028797018963968, 2026619832316723 / 2251799813685248)"
  by (simp add: eval64 fl_at [where k = 53] fl_at [where k = 56])

lemma zoom64_step2: "zoomStep64 (3602879701896397 / 36028797018963968, 2026619832316723 / 2251799813685248) = (1351079888211149 / 9007199254740992, 3828059683264921 / 4503599627370496)"
  by (simp add: eval64 fl_at [where k = 53] fl_at [where k = 55])

lemma zoom64_step3: "zoomStep64 (1351079888211149 / 9007199254740992, 3828059683264921 / 4503599627370496) = (3602879701896397 / 18014398509481984, 900719925474099 / 1125899906842624)"
  by (simp add: eval64 fl_at [where k = 53] fl_at [where k = 55])

lemma zoom64_step4: "zoomStep64 (3602879701896397 / 18014398509481984, 900719925474099 / 1125899906842624) = (1 / 4, 3377699720527871 / 4503599627370496)"
  by (simp add: eval64 fl_at [where k = 53] fl_at [where k = 54])

lemma zoom64_step5: "zoomStep64 (1 / 4, 3377699720527871 / 4503599627370496) = (5404319552844595 / 18014398509481984, 1576259869579673 / 2251799813685248)"
  by (simp add: eval64 fl_at [where k = 53] fl_at [where k = 54])

lemma zoom64_step6: "zoomStep64 (5404319552844595 / 18014398509481984, 1576259869579673 / 2251799813685248) = (3152519739159347 / 9007199254740992, 2927339757790821 / 4503599627370496)"
  by (simp add: eval64 fl_at [where k = 53] fl_at [where k = 54])

lemma zoom64_step7: "zoomStep64 (3152519739159347 / 9007199254740992, 2927339757790821 / 4503599627370496) = (7205759403792793 / 18014398509481984, 337769972052787 / 562949953421312)"
  by (simp add: eval64 fl_at [where k = 53] fl_at [where k = 54] fl_at [where k = 55])

lemma zoom64_step8: "zoomStep64 (7205759403792793 / 18014398509481984, 337769972052787 / 562949953421312) = (2026619832316723 / 4503599627370496, 2476979795053771 / 4503599627370496)"
  by (simp add: eval64 fl_at [where k = 53] fl_at [where k = 54] fl_at [where k = 56])

lemma zoom64_step9: "zoomStep64 (2026619832316723 / 4503599627370496, 2476979795053771 / 4503599627370496) = (4458563631096789 / 9007199254740992, 4548635623644199 / 9007199254740992)"
  by (simp add: eval64 fl_at [where k = 53] fl_at [where k = 54] fl_at [where k = 56] fl_at [where k = 57] fl_at [where k = 60] fl_at [where k = 104])

lemma zoom64_step10: "zoomStep64 (4458563631096789 / 9007199254740992, 4548635623644199 / 9007199254740992) = (4458563631096789 / 9007199254740992, 4548635623644199 / 9007199254740992)"
  by (simp add: eval64 fl_at [where k = 53] fl_at [where k = 54] fl_at [where k = 56] fl_at [where k = 59] fl_at [where k = 60])

lemma panLeft64_first: "adjustedRange64 (0, 1) (- VIEW_CHANGE_BASE64) (- VIEW_CHANGE_BASE64) = (0, 8962163258467287 / 9007199254740992)"
  by (simp add: eval64 fl_at [where k = 53] fl_at [where k = 60])

lemma panzoom64_step0: "zoomStep64 (0, 8962163258467287 / 9007199254740992) = (3602879701896397 / 72057594037927936, 8511803295730237 / 9007199254740992)"
  by (simp add: eval64 fl_at [where k = 53] fl_at [where k = 57])

lemma panzoom64_step1: "zoomStep64 (3602879701896397 / 72057594037927936, 8511803295730237 / 9007199254740992) = (3602879701896397 / 36028797018963968, 8061443332993187 / 9007199254740992)"
  by (simp add: eval64 fl_at [where k = 53] fl_at [where k = 56])

lemma panzoom64_step2: "zoomStep64 (3602879701896397 / 36028797018963968, 8061443332993187 / 9007199254740992) = (1351079888211149 / 9007199254740992, 7611083370256137 / 9007199254740992)"
  by (simp add: eval64 fl_at [where k = 53] fl_at [where k = 55])

lemma panzoom64_step3: "zoomStep64 (1351079888211149 / 9007199254740992, 7611083370256137 / 9007199254740992) = (3602879701896397 / 18014398509481984, 7160723407519087 / 9007199254740992)"
  by (simp add: eval64 fl_at [where k = 53] fl_at [where k = 55])

lemma panzoom64_step4: "zoomStep64 (3602879701896397 / 18014398509481984, 7160723407519087 / 9007199254740992) = (1 / 4, 6710363444782037 / 9007199254740992)"
  by (simp add: eval64 fl_at [where k = 53] fl_at [where k = 54])

lemma panzoom64_step5: "zoomStep64 (1 / 4, 6710363444782037 / 9007199254740992) = (5404319552844595 / 18014398509481984, 6260003482044987 / 9007199254740992)"
  by (simp add: eval64 fl_at [where k = 53] fl_at [where k = 54])

lemma panzoom64_step6: "zoomStep64 (5404319552844595 / 18014398509481984, 6260003482044987 / 9007199254740992) = (3152519739159347 / 9007199254740992, 5809643519307937 / 9007199254740992)"
  by (simp add: eval64 fl_at [where k = 53] fl_at [where k = 54])

lemma panzoom64_step7: "zoomStep64 (3152519739159347 / 9007199254740992, 5809643519307937 / 9007199254740992) = (7205759403792793 / 18014398509481984, 5359283556570887 / 9007199254740992)"
  by (simp add: eval64 fl_at [where k = 53] fl_at [where k = 54] fl_at [where k = 55])

lemma panzoom64_step8: "zoomStep64 (7205759403792793 / 18014398509481984, 5359283556570887 / 9007199254740992) = (2026619832316723 / 4503599627370496, 4908923593833837 / 9007199254740992)"
  by (simp add: eval64 fl_at [where k = 53] fl_at [where k = 54] fl_at [where k = 56])

lemma panzoom64_step9: "zoomStep64 (2026619832316723 / 4503599627370496, 4908923593833837 / 9007199254740992) = (8872091265919873 / 18014398509481984, 2263058812753673 / 4503599627370496)"
  by (simp add: eval64 fl_at [where k = 53] fl_at [where k = 54] fl_at [where k = 56] fl_at [where k = 57] fl_at [where k = 60])

lemma panRight64_floor: "adjustedRange64 (0, 5764607523034235 / 576460752303423488) VIEW_CHANGE_BASE64 VIEW_CHANGE_BASE64 = (5764607523034235 / 1152921504606846976, 1080863910568919 / 72057594037927936)"
  by (simp add: eval64 fl_at [where k = 59] fl_at [where k = 60])

section \<open>Binary64: the gestures on ranges\<close>

lemma adjustViewRange64_range:
  "currentRange (snd (adjustViewRange64 sc ec src st)) = adjustedRange64 (currentRange st) sc ec"
  by (cases "current (time (viewRange st))")
     (simp add: adjustViewRange64_def adjustedRange64_def Let_def updateViewRangeTime_range
        currentRange_def[of st])

lemma adjustViewRange64_result:
  "adjustViewRange64 sc ec src st = (effs, st') \<Longrightarrow>
     currentRange st' = adjustedRange64 (currentRange st) sc ec"
  by (metis adjustViewRange64_range snd_conv)

lemma getHandler64_range:
  "currentRange (snd (getHandler adjViewRange64 (sc, ec) st)) = adjustedRange64 (currentRange st) sc ec"
  by (simp add: getHandler_def adjViewRange64_def adjustViewRange64_result split: prod.splits)

lemma zoomInFast64_handler:
  assumes "map_of shortcutCallbacks64 ''zoomInFast'' = Some h"
  shows "h = getHandler adjViewRange64 (VIEW_CHANGE_FAST64, - VIEW_CHANGE_FAST64)"
  using assms by (simp add: shortcutCallbacks64_def makeShortcutCallbacks64_def shortcutConfig64_def)

lemma panLeft64_handler:
  "map_of shortcutCallbacks64 ''panLeft'' =
     Some (getHandler adjViewRange64 (- VIEW_CHANGE_BASE64, - VIEW_CHANGE_BASE64))"
  by (simp add: shortcutCallbacks64_def makeShortcutCallbacks64_def shortcutConfig64_def)

lemma zoomInFast64_press:
  "currentRange (press (getHandler adjViewRange64 (VIEW_CHANGE_FAST64, - VIEW_CHANGE_FAST64)) n st) =
     (zoomStep64 ^^ n) (currentRange st)"
  by (rule press_range) (simp add: getHandler64_range zoomStep64_def)

lemma funpow_next: "(f ^^ n) x = y \<Longrightarrow> f y = z \<Longrightarrow> (f ^^ Suc n) x = z"
  by simp

lemma zoom64_ten: "(zoomStep64 ^^ 10) (0, 1) = (4458563631096789 / 9007199254740992, 4548635623644199 / 9007199254740992)"
proof -
  have p0: "(zoomStep64 ^^ 0) (0, 1) = (0, 1)" by simp
  note p1 = funpow_next [OF p0 zoom64_step0]
  note p2 = funpow_next [OF p1 zoom64_step1]
  note p3 = funpow_next [OF p2 zoom64_step2]
  note p4 = funpow_next [OF p3 zoom64_step3]
  note p5 = funpow_next [OF p4 zoom64_step4]
  note p6 = funpow_next [OF p5 zoom64_step5]
  note p7 = funpow_next [OF p6 zoom64_step6]
  note p8 = funpow_next [OF p7 zoom64_step7]
  note p9 = funpow_next [OF p8 zoom64_step8]
  note p10 = funpow_next [OF p9 zoom64_step9]
  have ten: "(10::nat) = Suc (Suc (Suc (Suc (Suc (Suc (Suc (Suc (Suc (Suc 0)))))))))" by simp
  show ?thesis unfolding ten by (rule p10)
qed

lemma panzoom64_ten: "(zoomStep64 ^^ 10) (0, 8962163258467287 / 9007199254740992) = (8872091265919873 / 18014398509481984, 2263058812753673 / 4503599627370496)"
proof -
  have p0: "(zoomStep64 ^^ 0) (0, 8962163258467287 / 9007199254740992) = (0, 8962163258467287 / 9007199254740992)" by simp
  note p1 = funpow_next [OF p0 panzoom64_step0]
  note p2 = funpow_next [OF p1 panzoom64_step1]
  note p3 = funpow_next [OF p2 panzoom64_step2]
  note p4 = funpow_next [OF p3 panzoom64_step3]
  note p5 = funpow_next [OF p4 panzoom64_step4]
  note p6 = funpow_next [OF p5 panzoom64_step5]
  note p7 = funpow_next [OF p6 panzoom64_step6]
  note p8 = funpow_next [OF p7 panzoom64_step7]
  note p9 = funpow_next [OF p8 panzoom64_step8]
  note p10 = funpow_next [OF p9 panzoom64_step9]
  have ten: "(10::nat) = Suc (Suc (Suc (Suc (Suc (Suc (Suc (Suc (Suc (Suc 0)))))))))" by simp
  show ?thesis unfolding ten by (rule p10)
qed

lemma zoom64_orbit_step:
  assumes "r \<in> {(0 :: real, 1 :: real),
      (3602879701896397 / 72057594037927936, 4278419646001971 / 4503599627370496),
      (3602879701896397 / 36028797018963968, 2026619832316723 / 2251799813685248),
      (1351079888211149 / 9007199254740992, 3828059683264921 / 4503599627370496),
      (3602879701896397 / 18014398509481984, 900719925474099 / 1125899906842624),
      (1 / 4, 3377699720527871 / 4503599627370496),
      (5404319552844595 / 18014398509481984, 1576259869579673 / 2251799813685248),
      (3152519739159347 / 9007199254740992, 2927339757790821 / 4503599627370496),
      (7205759403792793 / 18014398509481984, 337769972052787 / 562949953421312),
      (2026619832316723 / 4503599627370496, 2476979795053771 / 4503599627370496),
      (4458563631096789 / 9007199254740992, 4548635623644199 / 9007199254740992)}"
  shows "zoomStep64 r \<in> {(0 :: real, 1 :: real),
      (3602879701896397 / 72057594037927936, 4278419646001971 / 4503599627370496),
      (3602879701896397 / 36028797018963968, 2026619832316723 / 2251799813685248),
      (1351079888211149 / 9007199254740992, 3828059683264921 / 4503599627370496),
      (3602879701896397 / 18014398509481984, 900719925474099 / 1125899906842624),
      (1 / 4, 3377699720527871 / 4503599627370496),
      (5404319552844595 / 18014398509481984, 1576259869579673 / 2251799813685248),
      (3152519739159347 / 9007199254740992, 2927339757790821 / 4503599627370496),
      (7205759403792793 / 18014398509481984, 337769972052787 / 562949953421312),
      (2026619832316723 / 4503599627370496, 2476979795053771 / 4503599627370496),
      (4458563631096789 / 9007199254740992, 4548635623644199 / 9007199254740992)}"
  using assms
  by (elim insertE emptyE)
     (simp_all only: zoom64_step0 zoom64_step1 zoom64_step2 zoom64_step3 zoom64_step4 zoom64_step5 zoom64_step6 zoom64_step7 zoom64_step8 zoom64_step9 zoom64_step10 insert_iff simp_thms)

lemma zoom64_orbit_ordered:
  assumes "r \<in> {(0 :: real, 1 :: real),
      (3602879701896397 / 72057594037927936, 4278419646001971 / 4503599627370496),
      (3602879701896397 / 36028797018963968, 2026619832316723 / 2251799813685248),
      (1351079888211149 / 9007199254740992, 3828059683264921 / 4503599627370496),
      (3602879701896397 / 18014398509481984, 900719925474099 / 1125899906842624),
      (1 / 4, 3377699720527871 / 4503599627370496),
      (5404319552844595 / 18014398509481984, 1576259869579673 / 2251799813685248),
      (3152519739159347 / 9007199254740992, 2927339757790821 / 4503599627370496),
      (7205759403792793 / 18014398509481984, 337769972052787 / 562949953421312),
      (2026619832316723 / 4503599627370496, 2476979795053771 / 4503599627370496),
      (4458563631096789 / 9007199254740992, 4548635623644199 / 9007199254740992)}"
  shows "fst r < snd r"
  using assms by (elim insertE emptyE) simp_all

lemma zoom64_orbit:
  "(zoomStep64 ^^ n) (0, 1) \<in> {(0 :: real, 1 :: real),
      (3602879701896397 / 72057594037927936, 4278419646001971 / 4503599627370496),
      (3602879701896397 / 36028797018963968, 2026619832316723 / 2251799813685248),
      (1351079888211149 / 9007199254740992, 3828059683264921 / 4503599627370496),
      (3602879701896397 / 18014398509481984, 900719925474099 / 1125899906842624),
      (1 / 4, 3377699720527871 / 4503599627370496),
      (5404319552844595 / 18014398509481984, 1576259869579673 / 2251799813685248),
      (3152519739159347 / 9007199254740992, 2927339757790821 / 4503599627370496),
      (7205759403792793 / 18014398509481984, 337769972052787 / 562949953421312),
      (2026619832316723 / 4503599627370496, 2476979795053771 / 4503599627370496),
      (4458563631096789 / 9007199254740992, 4548635623644199 / 9007199254740992)}"
proof (induction n)
  case 0
  show ?case by simp
next
  case (Suc n)
  have "(zoomStep64 ^^ Suc n) (0, 1) = zoomStep64 ((zoomStep64 ^^ n) (0, 1))" by simp
  with zoom64_orbit_step [OF Suc.IH] show ?case by (simp only:)
qed

lemma zoom64_limit: "(zoomStep64 ^^ (10 + k)) (0, 1) = (4458563631096789 / 9007199254740992, 4548635623644199 / 9007199254740992)"
proof (induction k)
  case 0
  show ?case using zoom64_ten by simp
next
  case (Suc k)
  have "(zoomStep64 ^^ (10 + Suc k)) (0, 1) = zoomStep64 ((zoomStep64 ^^ (10 + k)) (0, 1))"
    by (simp only: add_Suc_right funpow.simps o_apply)
  also have "\<dots> = zoomStep64 (4458563631096789 / 9007199254740992, 4548635623644199 / 9007199254740992)" by (simp only: Suc.IH)
  finally show ?case by (simp only: zoom64_step10)
qed

lemma fl_495: "fl (99 / 200) = 4458563631096791 / 9007199254740992"
  by (simp add: roundEven_def fl_at [where k = 54])

lemma fl_505: "fl (101 / 200) = 4548635623644201 / 9007199254740992"
  by (simp add: roundEven_def fl_at [where k = 53])

lemma fixed_width64: "sub64 (4548635623644199 / 9007199254740992) (4458563631096789 / 9007199254740992) = 45035996273705 / 4503599627370496"
  by (simp add: sub64_def roundEven_def fl_at [where k = 59])

lemma fixed_centre64: "half64 (add64 (4458563631096789 / 9007199254740992) (4548635623644199 / 9007199254740992)) = 2251799813685247 / 4503599627370496"
  by (simp add: half64_def add64_def roundEven_def fl_at [where k = 53] fl_at [where k = 54])

lemma panzoom_width64: "sub64 (2263058812753673 / 4503599627370496) (8872091265919873 / 18014398509481984) = 180143985094819 / 18014398509481984"
  by (simp add: sub64_def roundEven_def fl_at [where k = 59])

lemma panRight_width64: "sub64 (1080863910568919 / 72057594037927936) (5764607523034235 / 1152921504606846976) = 2882303761517117 / 288230376151711744"
  by (simp add: sub64_def roundEven_def fl_at [where k = 59])

lemma panzoom64_nine: "(zoomStep64 ^^ 9) (0, 8962163258467287 / 9007199254740992) = (2026619832316723 / 4503599627370496, 4908923593833837 / 9007199254740992)"
proof -
  have p0: "(zoomStep64 ^^ 0) (0, 8962163258467287 / 9007199254740992) = (0, 8962163258467287 / 9007199254740992)" by simp
  note p1 = funpow_next [OF p0 panzoom64_step0]
  note p2 = funpow_next [OF p1 panzoom64_step1]
  note p3 = funpow_next [OF p2 panzoom64_step2]
  note p4 = funpow_next [OF p3 panzoom64_step3]
  note p5 = funpow_next [OF p4 panzoom64_step4]
  note p6 = funpow_next [OF p5 panzoom64_step5]
  note p7 = funpow_next [OF p6 panzoom64_step6]
  note p8 = funpow_next [OF p7 panzoom64_step7]
  note p9 = funpow_next [OF p8 panzoom64_step8]
  have nine: "(9::nat) = Suc (Suc (Suc (Suc (Suc (Suc (Suc (Suc (Suc 0))))))))" by simp
  show ?thesis unfolding nine by (rule p9)
qed

section \<open>C1: the gestures and the minimum width\<close>

text \<open>
  C1 says that every gesture takes a range satisfying \<open>0 \<le> start < end \<le> 1\<close> and
  \<open>end - start \<ge> VIEW_MIN_RANGE\<close> to a range with \<open>end - start \<ge> VIEW_MIN_RANGE\<close>.
  In binary64 the page stores narrower ranges. From the initial range \<open>(0, 1)\<close>,
  \<open>panLeft\<close> and nine presses of \<open>zoomInFast\<close> give the valid range
  \<open>(0.44999999999999996, 0.5449999999999996)\<close>, and the tenth press stores
  \<open>(0.49249999999999977, 0.5024999999999997)\<close>, whose width is below the minimum
  both as the page computes it (\<open>0.009999999999999953\<close>) and exactly. From the valid
  range \<open>(0, 0.01)\<close>, \<open>panRight\<close> stores \<open>(0.005, 0.015)\<close>, whose width is below the
  minimum in both senses as well.
\<close>

theorem gestures_break_minimum_width:
  "map_of shortcutCallbacks64 ''panLeft'' = Some (getHandler adjViewRange64 (- VIEW_CHANGE_BASE64, - VIEW_CHANGE_BASE64) :: keyHandler)
   \<and> map_of shortcutCallbacks64 ''zoomInFast'' = Some (getHandler adjViewRange64 (VIEW_CHANGE_FAST64, - VIEW_CHANGE_FAST64) :: keyHandler)
   \<and> map_of shortcutCallbacks64 ''panRight'' = Some (getHandler adjViewRange64 (VIEW_CHANGE_BASE64, VIEW_CHANGE_BASE64) :: keyHandler)
   \<and> currentRange (press (getHandler adjViewRange64 (VIEW_CHANGE_FAST64, - VIEW_CHANGE_FAST64) :: keyHandler) 9 (press (getHandler adjViewRange64 (- VIEW_CHANGE_BASE64, - VIEW_CHANGE_BASE64) :: keyHandler) 1 (constructor_state False None :: pageState)))
       = (2026619832316723 / 4503599627370496, 4908923593833837 / 9007199254740992)
   \<and> validRange (2026619832316723 / 4503599627370496, 4908923593833837 / 9007199254740992)
   \<and> currentRange (press (getHandler adjViewRange64 (VIEW_CHANGE_FAST64, - VIEW_CHANGE_FAST64) :: keyHandler) 10 (press (getHandler adjViewRange64 (- VIEW_CHANGE_BASE64, - VIEW_CHANGE_BASE64) :: keyHandler) 1 (constructor_state False None :: pageState)))
       = (8872091265919873 / 18014398509481984, 2263058812753673 / 4503599627370496)
   \<and> sub64 (2263058812753673 / 4503599627370496) (8872091265919873 / 18014398509481984) < VIEW_MIN_RANGE64
   \<and> 2263058812753673 / 4503599627370496 - 8872091265919873 / 18014398509481984 < VIEW_MIN_RANGE
   \<and> currentRange (snd (updateViewRangeTime 0 (5764607523034235 / 576460752303423488) None (constructor_state False None :: pageState)
          :: unit effect list \<times> pageState)) = (0, 5764607523034235 / 576460752303423488)
   \<and> validRange (0, 5764607523034235 / 576460752303423488)
   \<and> currentRange (snd ((getHandler adjViewRange64 (VIEW_CHANGE_BASE64, VIEW_CHANGE_BASE64) :: keyHandler) (snd (updateViewRangeTime 0 (5764607523034235 / 576460752303423488) None (constructor_state False None :: pageState)
          :: unit effect list \<times> pageState))))
       = (5764607523034235 / 1152921504606846976, 1080863910568919 / 72057594037927936)
   \<and> sub64 (1080863910568919 / 72057594037927936) (5764607523034235 / 1152921504606846976) < VIEW_MIN_RANGE64
   \<and> 1080863910568919 / 72057594037927936 - 5764607523034235 / 1152921504606846976 < VIEW_MIN_RANGE"
proof -
  let ?st = "(constructor_state False None :: pageState)"
  let ?zf = "getHandler adjViewRange64 (VIEW_CHANGE_FAST64, - VIEW_CHANGE_FAST64) :: keyHandler"
  let ?pl = "getHandler adjViewRange64 (- VIEW_CHANGE_BASE64, - VIEW_CHANGE_BASE64) :: keyHandler"
  let ?pr = "getHandler adjViewRange64 (VIEW_CHANGE_BASE64, VIEW_CHANGE_BASE64) :: keyHandler"
  let ?fl = "(snd (updateViewRangeTime 0 (5764607523034235 / 576460752303423488) None (constructor_state False None :: pageState)
          :: unit effect list \<times> pageState))"
  have a: "map_of shortcutCallbacks64 ''panLeft'' = Some ?pl"
    by (simp add: shortcutCallbacks64_def makeShortcutCallbacks64_def shortcutConfig64_def)
  have b: "map_of shortcutCallbacks64 ''zoomInFast'' = Some ?zf"
    by (simp add: shortcutCallbacks64_def makeShortcutCallbacks64_def shortcutConfig64_def)
  have b': "map_of shortcutCallbacks64 ''panRight'' = Some ?pr"
    by (simp add: shortcutCallbacks64_def makeShortcutCallbacks64_def shortcutConfig64_def)
  have first: "currentRange (press ?pl 1 ?st) = (0, 8962163258467287 / 9007199254740992)"
    by (simp add: getHandler64_range constructor_range panLeft64_first)
  have c: "currentRange (press ?zf 9 (press ?pl 1 ?st)) = (2026619832316723 / 4503599627370496, 4908923593833837 / 9007199254740992)"
    by (simp only: zoomInFast64_press first panzoom64_nine)
  have d: "validRange (2026619832316723 / 4503599627370496, 4908923593833837 / 9007199254740992)"
    by (simp add: validRange_def min_range_frac)
  have e: "currentRange (press ?zf 10 (press ?pl 1 ?st)) = (8872091265919873 / 18014398509481984, 2263058812753673 / 4503599627370496)"
    by (simp only: zoomInFast64_press first panzoom64_ten)
  have f: "sub64 (2263058812753673 / 4503599627370496) (8872091265919873 / 18014398509481984) < VIEW_MIN_RANGE64"
    by (simp add: panzoom_width64 min_range64)
  have g: "2263058812753673 / 4503599627370496 - 8872091265919873 / 18014398509481984 < VIEW_MIN_RANGE"
    by (simp add: min_range_frac)
  have h: "currentRange ?fl = (0, 5764607523034235 / 576460752303423488)"
    by (rule updateViewRangeTime_range)
  have i: "validRange (0, 5764607523034235 / 576460752303423488)"
    by (simp add: validRange_def min_range_frac)
  have j: "currentRange (snd (?pr ?fl)) = (5764607523034235 / 1152921504606846976, 1080863910568919 / 72057594037927936)"
    by (simp only: getHandler64_range h panRight64_floor)
  have k: "sub64 (1080863910568919 / 72057594037927936) (5764607523034235 / 1152921504606846976) < VIEW_MIN_RANGE64"
    by (simp add: panRight_width64 min_range64)
  have l: "1080863910568919 / 72057594037927936 - 5764607523034235 / 1152921504606846976 < VIEW_MIN_RANGE"
    by (simp add: min_range_frac)
  from a b b' c d e f g h i j k l show ?thesis by (intro conjI)
qed

section \<open>C7: repeated fast zoom-in\<close>

text \<open>
  C7, as stated: from \<open>(0, 1)\<close>, repeated \<open>zoomInFast\<close> ends in the window of width
  \<open>VIEW_MIN_RANGE\<close> centred at \<open>0.5\<close>. In binary64 ten presses store
  \<open>(0.4949999999999998, 0.5049999999999998)\<close>. That is not the exact window
  \<open>(0.495, 0.505)\<close> and not the pair of doubles nearest to it; its centre as the page
  would compute it is below \<open>0.5\<close> and its width as the page computes it is not the
  minimum width.
\<close>

theorem zoomInFast_misses_centred_window_counterexample:
  "currentRange (press (getHandler adjViewRange64 (VIEW_CHANGE_FAST64, - VIEW_CHANGE_FAST64) :: keyHandler) 10 (constructor_state False None :: pageState))
       = (4458563631096789 / 9007199254740992, 4548635623644199 / 9007199254740992)
   \<and> (4458563631096789 / 9007199254740992, 4548635623644199 / 9007199254740992)
       \<noteq> (0.5 - VIEW_MIN_RANGE / 2, 0.5 + VIEW_MIN_RANGE / 2)
   \<and> (4458563631096789 / 9007199254740992, 4548635623644199 / 9007199254740992)
       \<noteq> (fl (99 / 200), fl (101 / 200))
   \<and> half64 (add64 (4458563631096789 / 9007199254740992) (4548635623644199 / 9007199254740992)) \<noteq> 0.5
   \<and> sub64 (4548635623644199 / 9007199254740992) (4458563631096789 / 9007199254740992) \<noteq> VIEW_MIN_RANGE64"
proof -
  let ?st = "(constructor_state False None :: pageState)"
  let ?zf = "getHandler adjViewRange64 (VIEW_CHANGE_FAST64, - VIEW_CHANGE_FAST64) :: keyHandler"
  have a: "currentRange (press ?zf 10 ?st) = (4458563631096789 / 9007199254740992, 4548635623644199 / 9007199254740992)"
    by (simp only: zoomInFast64_press constructor_range zoom64_ten)
  have b: "(4458563631096789 / 9007199254740992, 4548635623644199 / 9007199254740992) \<noteq> (0.5 - VIEW_MIN_RANGE / 2, 0.5 + VIEW_MIN_RANGE / 2)"
    by (simp add: min_range_frac)
  have c: "(4458563631096789 / 9007199254740992, 4548635623644199 / 9007199254740992) \<noteq> (fl (99 / 200), fl (101 / 200))"
    by (simp add: fl_495 fl_505)
  have d: "half64 (add64 (4458563631096789 / 9007199254740992) (4548635623644199 / 9007199254740992)) \<noteq> 0.5"
    by (simp add: fixed_centre64)
  have e: "sub64 (4548635623644199 / 9007199254740992) (4458563631096789 / 9007199254740992) \<noteq> VIEW_MIN_RANGE64"
    by (simp add: fixed_width64 min_range64)
  from a b c d e show ?thesis by (intro conjI)
qed

text \<open>
  C7, amended. Starting from the range \<open>(0, 1)\<close> and pressing \<open>zoomInFast\<close>
  repeatedly, from the tenth press on the range is the window
  \<open>(0.4949999999999998, 0.5049999999999998)\<close> and stays there; both ends are within
  \<open>10^-15\<close> of the window of width \<open>VIEW_MIN_RANGE\<close> centred at \<open>0.5\<close>; and after any
  number of presses \<open>start < end\<close>.
\<close>

theorem zoomInFast_reaches_fixed_window:
  assumes "currentRange st = (0, 1)"
    and "map_of shortcutCallbacks64 ''zoomInFast'' = Some handler"
  shows "currentRange (press handler (10 + k) st)
           = (4458563631096789 / 9007199254740992, 4548635623644199 / 9007199254740992)
       \<and> fst (currentRange (press handler n st)) < snd (currentRange (press handler n st))
       \<and> \<bar>4458563631096789 / 9007199254740992 - (0.495 :: real)\<bar> < 1 / 10 ^ 15
       \<and> \<bar>4548635623644199 / 9007199254740992 - (0.505 :: real)\<bar> < 1 / 10 ^ 15"
proof -
  have h: "handler = getHandler adjViewRange64 (VIEW_CHANGE_FAST64, - VIEW_CHANGE_FAST64)"
    using assms(2) by (rule zoomInFast64_handler)
  have run: "currentRange (press handler m st) = (zoomStep64 ^^ m) (0, 1)" for m
    by (simp only: h zoomInFast64_press assms(1))
  have "fst (currentRange (press handler n st)) < snd (currentRange (press handler n st))"
    unfolding run by (rule zoom64_orbit_ordered) (rule zoom64_orbit)
  moreover have "currentRange (press handler (10 + k) st) = (4458563631096789 / 9007199254740992, 4548635623644199 / 9007199254740992)"
    unfolding run by (rule zoom64_limit)
  moreover have "\<bar>4458563631096789 / 9007199254740992 - (0.495 :: real)\<bar> < 1 / 10 ^ 15" by simp
  moreover have "\<bar>4548635623644199 / 9007199254740992 - (0.505 :: real)\<bar> < 1 / 10 ^ 15" by simp
  ultimately show ?thesis by (intro conjI)
qed

theorem zoomInFast_reaches_fixed_window_witness:
  "currentRange (constructor_state False None :: pageState) = (0, 1)
   \<and> map_of shortcutCallbacks64 ''zoomInFast'' = Some (getHandler adjViewRange64 (VIEW_CHANGE_FAST64, - VIEW_CHANGE_FAST64) :: keyHandler)
   \<and> currentRange (press (getHandler adjViewRange64 (VIEW_CHANGE_FAST64, - VIEW_CHANGE_FAST64) :: keyHandler) (10 + 3) (constructor_state False None :: pageState))
       = (4458563631096789 / 9007199254740992, 4548635623644199 / 9007199254740992)
   \<and> fst (currentRange (press (getHandler adjViewRange64 (VIEW_CHANGE_FAST64, - VIEW_CHANGE_FAST64) :: keyHandler) 4 (constructor_state False None :: pageState)))
     < snd (currentRange (press (getHandler adjViewRange64 (VIEW_CHANGE_FAST64, - VIEW_CHANGE_FAST64) :: keyHandler) 4 (constructor_state False None :: pageState)))"
proof -
  let ?st = "(constructor_state False None :: pageState)"
  let ?zf = "getHandler adjViewRange64 (VIEW_CHANGE_FAST64, - VIEW_CHANGE_FAST64) :: keyHandler"
  have a: "currentRange ?st = (0, 1)" by (rule constructor_range)
  have b: "map_of shortcutCallbacks64 ''zoomInFast'' = Some ?zf"
    by (simp add: shortcutCallbacks64_def makeShortcutCallbacks64_def shortcutConfig64_def)
  from zoomInFast_reaches_fixed_window [OF a b, of 3 4] a b show ?thesis by blast
qed

end
